theory Spec2Isabelle
  imports Complex_Main "HOL-Library.AList"
begin

section \<open>Python values\<close>

text \<open>
  A Python \<open>str\<close> is a sequence of Unicode code points, so it is modelled as a list of
  natural numbers. ASCII literals of the source are written \<open>u ''...''\<close>.
\<close>

type_synonym pystr = "nat list"

definition u :: "string \<Rightarrow> pystr" where
  "u s = map of_char s"

text \<open>
  The values that travel through the request: \<open>None\<close>, booleans, numbers, strings, bytes,
  lists and dictionaries (insertion-ordered, as association lists). Floating-point numbers
  are only passed through, never computed with, in the request composer.
\<close>

datatype pyval =
    PNone
  | PBool bool
  | PInt int
  | PFloat real
  | PStr pystr
  | PBytes "nat list"
  | PList "pyval list"
  | PDict "(pystr \<times> pyval) list"

type_synonym pydict = "(pystr \<times> pyval) list"

text \<open>The exceptions the module can raise, or let escape from the library calls it makes.\<close>

datatype py_error =
    UnsupportedContentType pystr  \<comment> \<open>\<open>NotImplementedError("Unsupported content type: ...")\<close>\<close>
  | UnsupportedModel pystr        \<comment> \<open>\<open>ValueError("Unsupported model: ...")\<close>\<close>
  | KeyError pystr
  | IndexError
  | TypeError
  | DecodeError                   \<comment> \<open>whatever \<open>base64.b64decode\<close> raises\<close>
  | OverflowError                 \<comment> \<open>\<open>int too large to convert to float\<close>\<close>
  | ZeroDivisionError

text \<open>\<open>{**a, **b}\<close>: the keys of \<open>a\<close> in order, overridden by \<open>b\<close>, then the new keys of \<open>b\<close>.\<close>

definition dict_merge :: "('k \<times> 'v) list \<Rightarrow> ('k \<times> 'v) list \<Rightarrow> ('k \<times> 'v) list" where
  "dict_merge a b = foldl (\<lambda>d (k, v). AList.update k v d) a b"

section \<open>String helpers of the Python library\<close>

text \<open>\<open>str.split(sep)\<close> for a one-character separator: never returns an empty list.\<close>

fun split_on :: "nat \<Rightarrow> pystr \<Rightarrow> pystr list" where
  "split_on sep [] = [[]]"
| "split_on sep (x # xs) =
     (if x = sep then [] # split_on sep xs
      else (case split_on sep xs of
              [] \<Rightarrow> [[x]]
            | p # ps \<Rightarrow> (x # p) # ps))"

text \<open>
  \<open>Py_UNICODE_ISSPACE\<close>, which both \<open>\s\<close> of a \<open>str\<close> pattern and \<open>str.strip()\<close> use.
\<close>

definition is_space :: "nat \<Rightarrow> bool" where
  "is_space c \<longleftrightarrow>
     (9 \<le> c \<and> c \<le> 13) \<or> (28 \<le> c \<and> c \<le> 32) \<or> c = 133 \<or> c = 160 \<or> c = 5760 \<or>
     (8192 \<le> c \<and> c \<le> 8202) \<or> c = 8232 \<or> c = 8233 \<or> c = 8239 \<or> c = 8287 \<or> c = 12288"

definition is_alnum_ascii :: "nat \<Rightarrow> bool" where
  "is_alnum_ascii c \<longleftrightarrow> (48 \<le> c \<and> c \<le> 57) \<or> (65 \<le> c \<and> c \<le> 90) \<or> (97 \<le> c \<and> c \<le> 122)"

text \<open>The character class \<open>[a-zA-Z0-9\s\-\(\)\[\]]\<close>.\<close>

definition is_valid_char :: "nat \<Rightarrow> bool" where
  "is_valid_char c \<longleftrightarrow> is_alnum_ascii c \<or> is_space c \<or> c = 45 \<or> c = 40 \<or> c = 41 \<or> c = 91 \<or> c = 93"

text \<open>\<open>re.sub(r"\s+", " ", s)\<close>: every maximal run of whitespace becomes one space.\<close>

function collapse_ws :: "pystr \<Rightarrow> pystr" where
  "collapse_ws [] = []"
| "collapse_ws (x # xs) =
     (if is_space x then 32 # collapse_ws (dropWhile is_space xs) else x # collapse_ws xs)"
  by pat_completeness auto
termination
  by (relation "measure length") (auto simp: length_dropWhile_le less_Suc_eq_le)

definition strip :: "pystr \<Rightarrow> pystr" where
  "strip s = rev (dropWhile is_space (rev (dropWhile is_space s)))"

text \<open>
  \<open>pathlib\<close> on POSIX: the name of a path is its last component, where empty components
  and \<open>.\<close> components are dropped; the suffix starts at the last dot of the name, unless
  that dot is the first or the last character of the name.
\<close>

definition path_name :: "pystr \<Rightarrow> pystr" where
  "path_name p =
     (case filter (\<lambda>x. x \<noteq> [] \<and> x \<noteq> u ''.'') (split_on 47 p) of
        [] \<Rightarrow> []
      | ps \<Rightarrow> last ps)"

text \<open>\<open>name.rfind('.')\<close>, as \<open>None\<close> where Python returns \<open>-1\<close>.\<close>

fun rfind_dot :: "pystr \<Rightarrow> nat option" where
  "rfind_dot [] = None"
| "rfind_dot (x # xs) =
     (case rfind_dot xs of
        Some i \<Rightarrow> Some (Suc i)
      | None \<Rightarrow> (if x = 46 then Some 0 else None))"

definition path_suffix :: "pystr \<Rightarrow> pystr" where
  "path_suffix p =
     (let name = path_name p in
      case rfind_dot name of
        Some i \<Rightarrow> (if 0 < i \<and> Suc i < length name then drop i name else [])
      | None \<Rightarrow> [])"

definition path_stem :: "pystr \<Rightarrow> pystr" where
  "path_stem p =
     (let name = path_name p in
      case rfind_dot name of
        Some i \<Rightarrow> (if 0 < i \<and> Suc i < length name then take i name else name)
      | None \<Rightarrow> name)"

section \<open>Model resolver\<close>

definition base_model_ids :: "(pystr \<times> pystr) list" where
  "base_model_ids =
     [(u ''claude-v2'', u ''anthropic.claude-v2:1''),
      (u ''claude-instant-v1'', u ''anthropic.claude-instant-v1''),
      (u ''claude-v3-sonnet'', u ''anthropic.claude-3-sonnet-20240229-v1:0''),
      (u ''claude-v3-haiku'', u ''anthropic.claude-3-haiku-20240307-v1:0''),
      (u ''claude-v3-opus'', u ''anthropic.claude-3-opus-20240229-v1:0''),
      (u ''claude-v3.5-sonnet'', u ''anthropic.claude-3-5-sonnet-20240620-v1:0''),
      (u ''claude-v3.5-sonnet-v2'', u ''anthropic.claude-3-5-sonnet-20241022-v2:0''),
      (u ''claude-v3.5-haiku'', u ''anthropic.claude-3-5-haiku-20241022-v1:0''),
      (u ''mistral-7b-instruct'', u ''mistral.mistral-7b-instruct-v0:2''),
      (u ''mixtral-8x7b-instruct'', u ''mistral.mixtral-8x7b-instruct-v0:1''),
      (u ''mistral-large'', u ''mistral.mistral-large-2402-v1:0'')]"

definition cross_region_inference_models :: "pystr list" where
  "cross_region_inference_models =
     [u ''claude-v3-sonnet'',
      u ''claude-v3-haiku'',
      u ''claude-v3-opus'',
      u ''claude-v3.5-sonnet'',
      u ''claude-v3.5-sonnet-v2'',
      u ''claude-v3.5-haiku'']"

definition supported_region_prefixes :: "(pystr \<times> pystr) list" where
  "supported_region_prefixes =
     [(u ''us-east-1'', u ''us''),
      (u ''us-west-2'', u ''us''),
      (u ''eu-west-1'', u ''eu''),
      (u ''eu-central-1'', u ''eu''),
      (u ''eu-west-3'', u ''eu''),
      (u ''ap-southeast-2'', u ''au'')]"

text \<open>
  \<open>get_model_id\<close>, without its log lines. \<open>not base_model_id\<close> and \<open>if region_prefix\<close> are
  truth tests: \<open>None\<close> and the empty string are both false.
\<close>

definition get_model_id :: "pystr \<Rightarrow> bool \<Rightarrow> pystr \<Rightarrow> py_error + pystr" where
  "get_model_id model enable_cross_region bedrock_region =
     (case map_of base_model_ids model of
        None \<Rightarrow> Inl (UnsupportedModel model)
      | Some base_model_id \<Rightarrow>
          if base_model_id = [] then Inl (UnsupportedModel model)
          else if enable_cross_region \<and> model \<in> set cross_region_inference_models then
            (case map_of supported_region_prefixes bedrock_region of
               None \<Rightarrow> Inr base_model_id
             | Some region_prefix \<Rightarrow>
                 if region_prefix = [] then Inr base_model_id
                 else Inr (region_prefix @ u ''.'' @ base_model_id))
          else Inr base_model_id)"

section \<open>Request composer\<close>

text \<open>
  The message models live outside this module; only the fields the module reads are kept.
  \<open>media_type\<close> and \<open>file_name\<close> are optional, and \<open>body\<close> is any value: the
  module itself tests whether it is a string.
\<close>

record ContentModel =
  content_type :: pystr
  media_type :: "pystr option"
  body :: pyval
  file_name :: "pystr option"

record MessageModel =
  role :: pystr
  content :: "ContentModel list"

record GenerationParamsModel =
  max_tokens :: pyval
  temperature :: pyval
  top_p :: pyval
  top_k :: pyval
  stop_sequences :: pyval

record BedrockGuardrailsModel =
  grounding_threshold :: real
  guardrail_arn :: pystr
  guardrail_version :: pystr

text \<open>
  What the module takes from its surroundings: the configuration constants fixed at start-up,
  the key converter of \<open>app.utils\<close> and \<open>base64.b64decode\<close> (\<open>None\<close> where it raises).
\<close>

record environment =
  DEFAULT_GENERATION_CONFIG :: pydict
  ENABLE_BEDROCK_CROSS_REGION_INFERENCE :: bool
  BEDROCK_REGION :: pystr
  convert_dict_keys_to_camel_case :: "pydict \<Rightarrow> pydict"
  b64decode :: "pyval \<Rightarrow> nat list option"

definition get_converse_supported_format :: "pystr \<Rightarrow> pystr" where
  "get_converse_supported_format ext =
     (let supported_formats =
        [(u ''pdf'', u ''pdf''),
         (u ''csv'', u ''csv''),
         (u ''doc'', u ''doc''),
         (u ''docx'', u ''docx''),
         (u ''xls'', u ''xls''),
         (u ''xlsx'', u ''xlsx''),
         (u ''html'', u ''html''),
         (u ''txt'', u ''txt''),
         (u ''md'', u ''md'')]
      in case map_of supported_formats ext of
           None \<Rightarrow> u ''txt''
         | Some f \<Rightarrow> f)"

definition convert_to_valid_file_name :: "pystr \<Rightarrow> pystr" where
  "convert_to_valid_file_name fname =
     strip (collapse_ws (filter is_valid_char fname))"

text \<open>\<open>isinstance(v, str)\<close>\<close>

fun is_str :: "pyval \<Rightarrow> bool" where
  "is_str (PStr s) = True"
| "is_str v = False"

text \<open>The truth value of an optional string: \<open>None\<close> and \<open>""\<close> are false.\<close>

fun truthy :: "pystr option \<Rightarrow> bool" where
  "truthy None = False"
| "truthy (Some s) = (s \<noteq> [])"

definition image_format :: "ContentModel \<Rightarrow> py_error + pystr" where
  "image_format c =
     (if truthy (media_type c) then
        (case split_on 47 (the (media_type c)) of
           a # b # rest \<Rightarrow> Inr b
         | _ \<Rightarrow> Inl IndexError)
      else Inr (u ''unknown''))"

definition process_content ::
  "environment \<Rightarrow> pyval \<Rightarrow> BedrockGuardrailsModel option \<Rightarrow> ContentModel \<Rightarrow> pystr
     \<Rightarrow> py_error + pyval list" where
  "process_content E grounding_source guardrail c r =
     (if content_type c = u ''text'' then
        (if r = u ''user'' \<and>
            (case guardrail of None \<Rightarrow> False | Some g \<Rightarrow> grounding_threshold g > 0) then
           Inr [PDict [(u ''guardContent'', grounding_source)],
                PDict [(u ''guardContent'',
                        PDict [(u ''text'',
                                PDict [(u ''text'', body c),
                                       (u ''qualifiers'', PList [PStr (u ''query'')])])])]]
         else if r = u ''assistant'' then
           Inr [PDict [(u ''text'', if is_str (body c) then body c else PNone)]]
         else
           Inr [PDict [(u ''text'', body c)]])
      else if content_type c = u ''image'' then
        (case image_format c of
           Inl e \<Rightarrow> Inl e
         | Inr format \<Rightarrow>
             (case b64decode E (body c) of
                None \<Rightarrow> Inl DecodeError
              | Some bytes \<Rightarrow>
                  Inr [PDict [(u ''image'',
                               PDict [(u ''format'', PStr format),
                                      (u ''source'', PDict [(u ''bytes'', PBytes bytes)])])]]))
      else if content_type c = u ''attachment'' then
        (case file_name c of
           None \<Rightarrow> Inl TypeError
         | Some fname \<Rightarrow>
             (case b64decode E (body c) of
                None \<Rightarrow> Inl DecodeError
              | Some bytes \<Rightarrow>
                  Inr [PDict [(u ''document'',
                               PDict [(u ''format'',
                                       PStr (get_converse_supported_format
                                               (drop 1 (path_suffix fname)))),
                                      (u ''name'',
                                       PStr (convert_to_valid_file_name (path_stem fname))),
                                      (u ''source'', PDict [(u ''bytes'', PBytes bytes)])])]]))
      else Inl (UnsupportedContentType (content_type c)))"

text \<open>A comprehension whose body may raise: the first exception ends it.\<close>

fun traverse :: "('a \<Rightarrow> py_error + 'b) \<Rightarrow> 'a list \<Rightarrow> py_error + 'b list" where
  "traverse f [] = Inr []"
| "traverse f (x # xs) =
     (case f x of
        Inl e \<Rightarrow> Inl e
      | Inr y \<Rightarrow> (case traverse f xs of Inl e \<Rightarrow> Inl e | Inr ys \<Rightarrow> Inr (y # ys)))"

definition arg_message ::
  "environment \<Rightarrow> pyval \<Rightarrow> BedrockGuardrailsModel option \<Rightarrow> MessageModel
     \<Rightarrow> py_error + pyval" where
  "arg_message E grounding_source guardrail message =
     (case traverse (\<lambda>c. process_content E grounding_source guardrail c (role message))
             (content message) of
        Inl e \<Rightarrow> Inl e
      | Inr blocks \<Rightarrow>
          Inr (PDict [(u ''role'', PStr (role message)),
                      (u ''content'', PList (concat blocks))]))"

definition guardrail_supplied :: "BedrockGuardrailsModel option \<Rightarrow> bool" where
  "guardrail_supplied guardrail =
     (case guardrail of
        None \<Rightarrow> False
      | Some g \<Rightarrow> guardrail_arn g \<noteq> [] \<and> guardrail_version g \<noteq> [])"

definition compose_args_for_converse_api ::
  "environment \<Rightarrow> MessageModel list \<Rightarrow> pystr \<Rightarrow> pystr option \<Rightarrow> bool
     \<Rightarrow> GenerationParamsModel option \<Rightarrow> pyval \<Rightarrow> BedrockGuardrailsModel option
     \<Rightarrow> py_error + pydict" where
  "compose_args_for_converse_api E messages model instruction stream generation_params
       grounding_source guardrail =
     (case traverse (arg_message E grounding_source guardrail)
             (filter (\<lambda>m. role m \<notin> {u ''system'', u ''instruction''}) messages) of
        Inl e \<Rightarrow> Inl e
      | Inr arg_messages \<Rightarrow>
          let inference_config =
                dict_merge (DEFAULT_GENERATION_CONFIG E)
                  (case generation_params of
                     Some gp \<Rightarrow>
                       [(u ''maxTokens'', max_tokens gp),
                        (u ''temperature'', temperature gp),
                        (u ''topP'', top_p gp),
                        (u ''stopSequences'', stop_sequences gp)]
                   | None \<Rightarrow> [])
          in (case map_of inference_config (u ''top_k'') of
                None \<Rightarrow> Inl (KeyError (u ''top_k''))
              | Some k \<Rightarrow>
                  let additional_model_request_fields = [(u ''top_k'', k)];
                      inference_config' = AList.delete (u ''top_k'') inference_config
                  in (case get_model_id model (ENABLE_BEDROCK_CROSS_REGION_INFERENCE E)
                             (BEDROCK_REGION E) of
                        Inl e \<Rightarrow> Inl e
                      | Inr model_id \<Rightarrow>
                          let args =
                                [(u ''inference_config'',
                                  PDict (convert_dict_keys_to_camel_case E inference_config')),
                                 (u ''additional_model_request_fields'',
                                  PDict additional_model_request_fields),
                                 (u ''model_id'', PStr model_id),
                                 (u ''messages'', PList arg_messages),
                                 (u ''stream'', PBool stream),
                                 (u ''system'',
                                  if truthy instruction
                                  then PList [PDict [(u ''text'', PStr (the instruction))]]
                                  else PList [])]
                          in if guardrail_supplied guardrail then
                               let guardrailConfig =
                                     [(u ''guardrailIdentifier'', PStr (guardrail_arn (the guardrail))),
                                      (u ''guardrailVersion'', PStr (guardrail_version (the guardrail))),
                                      (u ''trace'', PStr (u ''enabled''))];
                                   guardrailConfig' =
                                     (if stream
                                      then AList.update (u ''streamProcessingMode'')
                                             (PStr (u ''async'')) guardrailConfig
                                      else guardrailConfig)
                               in Inr (AList.update (u ''guardrailConfig'')
                                         (PDict guardrailConfig') args)
                             else Inr args)))"

section \<open>Python floats\<close>

text \<open>
  A Python \<open>float\<close> is an IEEE 754 binary64 number. \<open>Finite s m e\<close> is the number
  \<open>m * 2 ^ e\<close>, negated when the sign bit \<open>s\<close> is set. A normal number has
  \<open>2 ^ 52 \<le> m < 2 ^ 53\<close> and \<open>-1074 \<le> e \<le> 971\<close>; a subnormal number or a zero has
  \<open>m < 2 ^ 52\<close> and \<open>e = -1074\<close>, so there are two zeros. The payload of a NaN is not
  kept.
\<close>

datatype double = Finite bool nat int | Infinity bool | NaN

fun bit_length :: "nat \<Rightarrow> nat" where
  "bit_length n = (if n = 0 then 0 else Suc (bit_length (n div 2)))"

declare bit_length.simps [simp del]

text \<open>The integer nearest to \<open>num / den\<close>, a tie going to the even one.\<close>

definition round_half_even :: "nat \<Rightarrow> nat \<Rightarrow> nat" where
  "round_half_even num den =
     (let q = num div den; r = num mod den
      in if den < 2 * r \<or> (2 * r = den \<and> odd q) then q + 1 else q)"

text \<open>The largest \<open>k\<close> with \<open>2 ^ k \<le> n / d\<close>, for positive \<open>n\<close> and \<open>d\<close>.\<close>

definition floor_log2 :: "nat \<Rightarrow> nat \<Rightarrow> int" where
  "floor_log2 n d =
     (let k = int (bit_length n) - int (bit_length d)
      in if d * 2 ^ nat k \<le> n * 2 ^ nat (- k) then k else k - 1)"

text \<open>
  Rounding to nearest, ties to even: the double nearest to \<open>(n / d) * 2 ^ x\<close> with the
  sign \<open>s\<close>, and an infinity when the rounded number is beyond the largest double.
\<close>

definition round_to_double :: "bool \<Rightarrow> nat \<Rightarrow> nat \<Rightarrow> int \<Rightarrow> double" where
  "round_to_double s n d x =
     (if n = 0 then Finite s 0 (- 1074)
      else
        let e = max (floor_log2 n d + x - 52) (- 1074);
            m = round_half_even (n * 2 ^ nat (x - e)) (d * 2 ^ nat (e - x));
            e' = (if m = 2 ^ 53 then e + 1 else e);
            m' = (if m = 2 ^ 53 then 2 ^ 52 else m)
        in if 971 < e' then Infinity s else Finite s m' e')"

fun ieee_mul :: "double \<Rightarrow> double \<Rightarrow> double" where
  "ieee_mul (Finite s m e) (Finite t n f) = round_to_double (s \<noteq> t) (m * n) 1 (e + f)"
| "ieee_mul (Finite s m e) (Infinity t) = (if m = 0 then NaN else Infinity (s \<noteq> t))"
| "ieee_mul (Infinity s) (Finite t n f) = (if n = 0 then NaN else Infinity (s \<noteq> t))"
| "ieee_mul (Infinity s) (Infinity t) = Infinity (s \<noteq> t)"
| "ieee_mul NaN b = NaN"
| "ieee_mul a NaN = NaN"

fun ieee_div :: "double \<Rightarrow> double \<Rightarrow> double" where
  "ieee_div (Finite s m e) (Finite t n f) =
     (if n = 0 then (if m = 0 then NaN else Infinity (s \<noteq> t))
      else round_to_double (s \<noteq> t) m n (e - f))"
| "ieee_div (Finite s m e) (Infinity t) = Finite (s \<noteq> t) 0 (- 1074)"
| "ieee_div (Infinity s) (Finite t n f) = Infinity (s \<noteq> t)"
| "ieee_div (Infinity s) (Infinity t) = NaN"
| "ieee_div NaN b = NaN"
| "ieee_div a NaN = NaN"

definition signed :: "bool \<Rightarrow> nat \<Rightarrow> int" where
  "signed s m = (if s then - int m else int m)"

text \<open>An exact sum of zero is \<open>-0.0\<close> only when both operands are negative zeros.\<close>

fun ieee_add :: "double \<Rightarrow> double \<Rightarrow> double" where
  "ieee_add (Finite s m e) (Finite t n f) =
     (let g = min e f;
          c = signed s m * 2 ^ nat (e - g) + signed t n * 2 ^ nat (f - g)
      in if c = 0 then Finite (s \<and> t) 0 (- 1074)
         else round_to_double (c < 0) (nat \<bar>c\<bar>) 1 g)"
| "ieee_add (Finite s m e) (Infinity t) = Infinity t"
| "ieee_add (Infinity s) (Finite t n f) = Infinity s"
| "ieee_add (Infinity s) (Infinity t) = (if s = t then Infinity s else NaN)"
| "ieee_add NaN b = NaN"
| "ieee_add a NaN = NaN"

text \<open>
  The arithmetic of Python on top of it. Converting an \<open>int\<close> rounds it to the nearest
  double and raises \<open>OverflowError\<close> when that is beyond the largest double; \<open>float * int\<close>
  converts the \<open>int\<close> first; \<open>float * float\<close> and \<open>float + float\<close> never raise; and
  \<open>float / float\<close> raises \<open>ZeroDivisionError\<close> for a divisor that is a zero.
\<close>

definition float_of_int :: "int \<Rightarrow> py_error + double" where
  "float_of_int i =
     (case round_to_double (i < 0) (nat \<bar>i\<bar>) 1 0 of
        Infinity s \<Rightarrow> Inl OverflowError
      | x \<Rightarrow> Inr x)"

definition float_mul_int :: "double \<Rightarrow> int \<Rightarrow> py_error + double" where
  "float_mul_int a i =
     (case float_of_int i of
        Inl e \<Rightarrow> Inl e
      | Inr b \<Rightarrow> Inr (ieee_mul a b))"

fun is_zero :: "double \<Rightarrow> bool" where
  "is_zero (Finite s m e) = (m = 0)"
| "is_zero x = False"

definition float_truediv :: "double \<Rightarrow> double \<Rightarrow> py_error + double" where
  "float_truediv a b = (if is_zero b then Inl ZeroDivisionError else Inr (ieee_div a b))"

text \<open>The float that the literal \<open>1000.0\<close> denotes: \<open>1000 = 8796093022208000 * 2 ^ (-43)\<close>.\<close>

definition float_1000 :: double where
  "float_1000 = Finite False 8796093022208000 (- 43)"

section \<open>Price calculator\<close>

text \<open>
  The pricing table is a constant of \<open>app.config\<close>, so it is a parameter here. Its unit
  prices are Python floats.
\<close>

type_synonym pricing = "(pystr \<times> (pystr \<times> (pystr \<times> double) list) list) list"

text \<open>\<open>d[k]\<close>, which raises \<open>KeyError\<close> on a missing key.\<close>

definition subscript :: "(pystr \<times> 'v) list \<Rightarrow> pystr \<Rightarrow> py_error + 'v" where
  "subscript d k = (case map_of d k of None \<Rightarrow> Inl (KeyError k) | Some v \<Rightarrow> Inr v)"

text \<open>\<open>d.get(k, default)\<close>\<close>

definition dict_get :: "('k \<times> 'v) list \<Rightarrow> 'k \<Rightarrow> 'v \<Rightarrow> 'v" where
  "dict_get d k dflt = (case map_of d k of None \<Rightarrow> dflt | Some v \<Rightarrow> v)"

text \<open>
  One unit price. The receiver \<open>BEDROCK_PRICING.get(region, {}).get(model, {})\<close> cannot
  raise; the default argument of the last \<open>get\<close> is evaluated before the call, whether it
  is needed or not.
\<close>

definition unit_price :: "pricing \<Rightarrow> pystr \<Rightarrow> pystr \<Rightarrow> pystr \<Rightarrow> py_error + double" where
  "unit_price BEDROCK_PRICING region model field =
     (let receiver = dict_get (dict_get BEDROCK_PRICING region []) model []
      in case subscript BEDROCK_PRICING (u ''default'') of
           Inl e \<Rightarrow> Inl e
         | Inr by_model \<Rightarrow>
             (case subscript by_model model of
                Inl e \<Rightarrow> Inl e
              | Inr prices \<Rightarrow>
                  (case subscript prices field of
                     Inl e \<Rightarrow> Inl e
                   | Inr fallback \<Rightarrow> Inr (dict_get receiver field fallback))))"

text \<open>
  \<open>input_price * input_tokens / 1000.0\<close>, and the same for the output: a product of a
  float and an \<open>int\<close>, divided by the float \<open>1000.0\<close>.
\<close>

definition price_per_thousand :: "double \<Rightarrow> int \<Rightarrow> py_error + double" where
  "price_per_thousand price tokens =
     (case float_mul_int price tokens of
        Inl e \<Rightarrow> Inl e
      | Inr product \<Rightarrow> float_truediv product float_1000)"

text \<open>
  Both unit prices are looked up first; then the two terms of the sum are computed from
  left to right, and added.
\<close>

definition calculate_price :: "pricing \<Rightarrow> pystr \<Rightarrow> int \<Rightarrow> int \<Rightarrow> pystr \<Rightarrow> py_error + double" where
  "calculate_price BEDROCK_PRICING model input_tokens output_tokens region =
     (case unit_price BEDROCK_PRICING region model (u ''input'') of
        Inl e \<Rightarrow> Inl e
      | Inr input_price \<Rightarrow>
          (case unit_price BEDROCK_PRICING region model (u ''output'') of
             Inl e \<Rightarrow> Inl e
           | Inr output_price \<Rightarrow>
               (case price_per_thousand input_price input_tokens of
                  Inl e \<Rightarrow> Inl e
                | Inr input_cost \<Rightarrow>
                    (case price_per_thousand output_price output_tokens of
                       Inl e \<Rightarrow> Inl e
                     | Inr output_cost \<Rightarrow> Inr (ieee_add input_cost output_cost)))))"

text \<open>
  The lookup the pricing rules are stated with: \<open>table[region][model][field]\<close> where the
  region, the model and the field are all present, and \<open>None\<close> otherwise.
\<close>

definition table_lookup :: "pricing \<Rightarrow> pystr \<Rightarrow> pystr \<Rightarrow> pystr \<Rightarrow> double option" where
  "table_lookup table region model field =
     (case map_of table region of
        None \<Rightarrow> None
      | Some by_model \<Rightarrow>
          (case map_of by_model model of
             None \<Rightarrow> None
           | Some prices \<Rightarrow> map_of prices field))"

text \<open>
  The floats of the examples, named by the literal that denotes them:
  \<open>0.00025\<close>, \<open>0.00125\<close>, \<open>0.003\<close>, \<open>0.015\<close>, \<open>0.02\<close> and \<open>0.075\<close>.
\<close>

definition f_0_00025 :: double where "f_0_00025 = Finite False 4611686018427388 (- 64)"
definition f_0_00125 :: double where "f_0_00125 = Finite False 5764607523034235 (- 62)"
definition f_0_003 :: double where "f_0_003 = Finite False 6917529027641082 (- 61)"
definition f_0_015 :: double where "f_0_015 = Finite False 8646911284551352 (- 59)"
definition f_0_02 :: double where "f_0_02 = Finite False 5764607523034235 (- 58)"
definition f_0_075 :: double where "f_0_075 = Finite False 5404319552844595 (- 56)"

text \<open>A small pricing table for the examples.\<close>

definition example_default_prices :: "(pystr \<times> (pystr \<times> double) list) list" where
  "example_default_prices =
     [(u ''claude-v3-opus'', [(u ''input'', f_0_015), (u ''output'', f_0_075)]),
      (u ''claude-v3-sonnet'', [(u ''input'', f_0_003), (u ''output'', f_0_015)])]"

definition example_pricing :: pricing where
  "example_pricing =
     [(u ''us-east-1'',
       [(u ''claude-v3-haiku'', [(u ''input'', f_0_00025), (u ''output'', f_0_00125)]),
        (u ''claude-v3-opus'', [(u ''input'', f_0_02)])]),
      (u ''default'', example_default_prices)]"

section \<open>Properties the claims are stated with, and example inputs\<close>

text \<open>Two whitespace characters next to each other somewhere in the string.\<close>

fun adjacent_spaces :: "pystr \<Rightarrow> bool" where
  "adjacent_spaces (a # b # xs) \<longleftrightarrow> (is_space a \<and> is_space b) \<or> adjacent_spaces (b # xs)"
| "adjacent_spaces xs \<longleftrightarrow> False"

text \<open>
  An environment for the examples: the default configuration holds only \<open>top_k\<close>, and the
  decoder is defined on the empty string only, which \<open>base64.b64decode\<close> maps to no bytes.
\<close>

definition example_environment :: environment where
  "example_environment =
     \<lparr>DEFAULT_GENERATION_CONFIG = [(u ''top_k'', PInt 250)],
      ENABLE_BEDROCK_CROSS_REGION_INFERENCE = False,
      BEDROCK_REGION = u ''ap-southeast-2'',
      convert_dict_keys_to_camel_case = (\<lambda>d. d),
      b64decode = (\<lambda>v. if v = PStr [] then Some [] else None)\<rparr>"

definition example_guardrail :: BedrockGuardrailsModel where
  "example_guardrail =
     \<lparr>grounding_threshold = 1 / 2,
      guardrail_arn = u ''arn:aws:bedrock:guardrail/abc'',
      guardrail_version = u ''1''\<rparr>"

definition hello_block :: ContentModel where
  "hello_block =
     \<lparr>content_type = u ''text'', media_type = None, body = PStr (u ''hello''), file_name = None\<rparr>"

definition assistant_tool_use :: ContentModel where
  "assistant_tool_use =
     \<lparr>content_type = u ''text'', media_type = None,
      body = PDict [(u ''toolUse'', PDict [(u ''name'', PStr (u ''search''))])],
      file_name = None\<rparr>"

text \<open>
  The file name \<open>My Resume (v2).pdf!!\<close> with an acute accent on each \<open>e\<close> of the second
  word: the accented letter is the code point 233.
\<close>

definition resume_file_name :: pystr where
  "resume_file_name = u ''My R'' @ [233] @ u ''sum'' @ [233] @ u '' (v2).pdf!!''"

definition resume_attachment :: ContentModel where
  "resume_attachment =
     \<lparr>content_type = u ''attachment'', media_type = None, body = PStr [],
      file_name = Some resume_file_name\<rparr>"

definition report_attachment :: ContentModel where
  "report_attachment =
     \<lparr>content_type = u ''attachment'', media_type = None, body = PStr [],
      file_name = Some (u ''docs/Q3  report_[final].pdf'')\<rparr>"



section \<open>Facts about the helpers\<close>

lemma u_eq_iff [simp]: "u a = u b \<longleftrightarrow> a = b"
proof -
  have "inj (of_char :: char \<Rightarrow> nat)"
    by (rule injI) simp
  then have "inj (map (of_char :: char \<Rightarrow> nat))"
    by (simp only: inj_map)
  then show ?thesis
    unfolding u_def by (auto dest: injD)
qed

lemma u_Nil_iff [simp]: "u a = [] \<longleftrightarrow> a = []" "[] = u a \<longleftrightarrow> a = []"
  by (auto simp: u_def)

lemma u_append: "u (a @ b) = u a @ u b"
  by (simp add: u_def)

lemma base_model_id_nonempty:
  "map_of base_model_ids m = Some b \<Longrightarrow> b \<noteq> []"
  by (drule map_of_SomeD) (auto simp: base_model_ids_def)

lemma region_prefix_nonempty:
  "map_of supported_region_prefixes r = Some p \<Longrightarrow> p \<noteq> []"
  by (drule map_of_SomeD) (auto simp: supported_region_prefixes_def)

lemma cross_region_model_has_base:
  "m \<in> set cross_region_inference_models \<Longrightarrow> \<exists>b. map_of base_model_ids m = Some b"
  by (auto simp: cross_region_inference_models_def base_model_ids_def)

lemma haiku_cross_region: "u ''claude-v3-haiku'' \<in> set cross_region_inference_models"
  by (simp add: cross_region_inference_models_def)

lemma haiku_base:
  "map_of base_model_ids (u ''claude-v3-haiku'')
     = Some (u ''anthropic.claude-3-haiku-20240307-v1:0'')"
  by (simp add: base_model_ids_def)

lemma sydney_prefix: "map_of supported_region_prefixes (u ''ap-southeast-2'') = Some (u ''au'')"
  by (simp add: supported_region_prefixes_def)

lemma tokyo_no_prefix: "map_of supported_region_prefixes (u ''ap-northeast-1'') = None"
  by (simp add: supported_region_prefixes_def)

section \<open>Model resolver: cross-region rewrite\<close>

text \<open>
  C1. Every model of the cross-region subset has a base id; resolving it with cross-region
  inference enabled and a region of the prefix table returns the prefix, a dot and the base
  id. With cross-region inference disabled, with a region outside the table, or for a model
  outside the subset that has a base id, the base id is returned unchanged.
\<close>

theorem get_model_id_cross_region:
  "(model \<in> set cross_region_inference_models \<longrightarrow>
      (\<exists>base_id. map_of base_model_ids model = Some base_id \<and>
         (\<forall>region prefix. map_of supported_region_prefixes region = Some prefix \<longrightarrow>
            get_model_id model True region = Inr (prefix @ u ''.'' @ base_id)) \<and>
         (\<forall>region. map_of supported_region_prefixes region = None \<longrightarrow>
            get_model_id model True region = Inr base_id) \<and>
         (\<forall>region. get_model_id model False region = Inr base_id))) \<and>
   (\<forall>base_id. model \<notin> set cross_region_inference_models \<and>
        map_of base_model_ids model = Some base_id \<longrightarrow>
      (\<forall>enable region. get_model_id model enable region = Inr base_id))"
proof (intro conjI impI allI)
  assume m: "model \<in> set cross_region_inference_models"
  then obtain b where b: "map_of base_model_ids model = Some b"
    using cross_region_model_has_base by blast
  then have ne: "b \<noteq> []" by (rule base_model_id_nonempty)
  have "\<forall>region prefix. map_of supported_region_prefixes region = Some prefix \<longrightarrow>
            get_model_id model True region = Inr (prefix @ u ''.'' @ b)"
    using m b ne by (auto simp: get_model_id_def dest: region_prefix_nonempty)
  moreover have "\<forall>region. map_of supported_region_prefixes region = None \<longrightarrow>
            get_model_id model True region = Inr b"
    using m b ne by (simp add: get_model_id_def)
  moreover have "\<forall>region. get_model_id model False region = Inr b"
    using b ne by (simp add: get_model_id_def)
  ultimately show "\<exists>base_id. map_of base_model_ids model = Some base_id \<and>
         (\<forall>region prefix. map_of supported_region_prefixes region = Some prefix \<longrightarrow>
            get_model_id model True region = Inr (prefix @ u ''.'' @ base_id)) \<and>
         (\<forall>region. map_of supported_region_prefixes region = None \<longrightarrow>
            get_model_id model True region = Inr base_id) \<and>
         (\<forall>region. get_model_id model False region = Inr base_id)"
    using b by blast
next
  fix base_id enable region
  assume "model \<notin> set cross_region_inference_models \<and> map_of base_model_ids model = Some base_id"
  then show "get_model_id model enable region = Inr base_id"
    by (auto simp: get_model_id_def dest: base_model_id_nonempty)
qed

theorem get_model_id_cross_region_witness:
  "u ''claude-v3-haiku'' \<in> set cross_region_inference_models \<and>
   map_of supported_region_prefixes (u ''ap-southeast-2'') = Some (u ''au'') \<and>
   get_model_id (u ''claude-v3-haiku'') True (u ''ap-southeast-2'')
     = Inr (u ''au.anthropic.claude-3-haiku-20240307-v1:0'') \<and>
   map_of supported_region_prefixes (u ''ap-northeast-1'') = None \<and>
   get_model_id (u ''claude-v3-haiku'') True (u ''ap-northeast-1'')
     = Inr (u ''anthropic.claude-3-haiku-20240307-v1:0'') \<and>
   get_model_id (u ''claude-v3-haiku'') False (u ''ap-southeast-2'')
     = Inr (u ''anthropic.claude-3-haiku-20240307-v1:0'') \<and>
   u ''claude-v2'' \<notin> set cross_region_inference_models \<and>
   map_of base_model_ids (u ''claude-v2'') = Some (u ''anthropic.claude-v2:1'') \<and>
   get_model_id (u ''claude-v2'') True (u ''us-east-1'') = Inr (u ''anthropic.claude-v2:1'')"
proof -
  have a: "u ''claude-v2'' \<notin> set cross_region_inference_models"
    by (simp add: cross_region_inference_models_def)
  have b: "map_of base_model_ids (u ''claude-v2'') = Some (u ''anthropic.claude-v2:1'')"
    by (simp add: base_model_ids_def)
  have c: "u ''au.anthropic.claude-3-haiku-20240307-v1:0''
             = u ''au'' @ u ''.'' @ u ''anthropic.claude-3-haiku-20240307-v1:0''"
    by (simp add: u_def)
  from get_model_id_cross_region [of "u ''claude-v3-haiku''"] haiku_cross_region haiku_base
  have h: "\<forall>region prefix. map_of supported_region_prefixes region = Some prefix \<longrightarrow>
             get_model_id (u ''claude-v3-haiku'') True region
               = Inr (prefix @ u ''.'' @ u ''anthropic.claude-3-haiku-20240307-v1:0'')"
     "\<forall>region. map_of supported_region_prefixes region = None \<longrightarrow>
             get_model_id (u ''claude-v3-haiku'') True region
               = Inr (u ''anthropic.claude-3-haiku-20240307-v1:0'')"
     "\<forall>region. get_model_id (u ''claude-v3-haiku'') False region
               = Inr (u ''anthropic.claude-3-haiku-20240307-v1:0'')"
    by auto
  from get_model_id_cross_region [of "u ''claude-v2''"] a b
  have k: "get_model_id (u ''claude-v2'') True (u ''us-east-1'') = Inr (u ''anthropic.claude-v2:1'')"
    by blast
  show ?thesis
    using h(1)[rule_format, OF sydney_prefix] h(2)[rule_format, OF tokyo_no_prefix] h(3) k a b
      sydney_prefix haiku_cross_region tokyo_no_prefix c
    by simp
qed

section \<open>Python floats: conversion of integers\<close>

lemma bit_length_upper: "n < 2 ^ bit_length n"
proof (induction n rule: bit_length.induct)
  case (1 n)
  show ?case
  proof (cases "n = 0")
    case True
    then show ?thesis by (simp add: bit_length.simps)
  next
    case False
    with 1 have "n div 2 < 2 ^ bit_length (n div 2)" by simp
    then have "n < 2 * 2 ^ bit_length (n div 2)" by linarith
    with False show ?thesis by (subst bit_length.simps) simp
  qed
qed

lemma bit_length_lower: "0 < n \<Longrightarrow> 2 ^ (bit_length n - 1) \<le> n"
proof (induction n rule: bit_length.induct)
  case (1 n)
  then have n: "n \<noteq> 0" by simp
  show ?case
  proof (cases "n div 2 = 0")
    case True
    then have "bit_length (n div 2) = 0" by (simp add: bit_length.simps)
    with n have "bit_length n = 1" by (subst bit_length.simps) simp
    with 1 show ?thesis by simp
  next
    case False
    with 1 n have ih: "2 ^ (bit_length (n div 2) - 1) \<le> n div 2" by simp
    have pos: "0 < bit_length (n div 2)"
      using False by (subst bit_length.simps) simp
    have "bit_length n = Suc (bit_length (n div 2))"
      using n by (subst bit_length.simps) simp
    then have "2 ^ (bit_length n - 1) = 2 * 2 ^ (bit_length (n div 2) - 1)"
      using pos by (cases "bit_length (n div 2)") simp_all
    also have "\<dots> \<le> 2 * (n div 2)" using ih by simp
    also have "\<dots> \<le> n" by simp
    finally show ?thesis .
  qed
qed

lemma bit_length_pos: "0 < n \<Longrightarrow> 0 < bit_length n"
  by (subst bit_length.simps) simp

lemma bit_length_1: "bit_length (Suc 0) = 1"
  by (simp add: bit_length.simps)

lemma floor_log2_1:
  assumes "0 < n"
  shows "floor_log2 n (Suc 0) = int (bit_length n) - 1"
proof -
  have "0 < bit_length n" using assms by (rule bit_length_pos)
  then have k: "nat (int (bit_length n) - 1) = bit_length n - 1"
    and k': "nat (- (int (bit_length n) - 1)) = 0"
    by simp_all
  have "floor_log2 n (Suc 0) =
          (if Suc 0 * 2 ^ (bit_length n - 1) \<le> n * 2 ^ 0
           then int (bit_length n) - 1 else int (bit_length n) - 1 - 1)"
    unfolding floor_log2_def Let_def bit_length_1 by (simp only: k k' int_ops)
  then show ?thesis
    using bit_length_lower [OF assms] by simp
qed

lemma float_of_int_overflow:
  assumes "2 ^ 1024 \<le> \<bar>i\<bar>"
  shows "float_of_int i = Inl OverflowError"
proof -
  let ?n = "nat \<bar>i\<bar>"
  have n: "2 ^ 1024 \<le> ?n"
    using assms by (simp add: le_nat_iff)
  then have pos: "0 < ?n"
    by (metis less_le_trans zero_less_numeral zero_less_power)
  have "(2::nat) ^ 1024 < 2 ^ bit_length ?n"
    using n bit_length_upper [of ?n] by (rule le_less_trans)
  then have "1024 < bit_length ?n"
    by (rule power_less_imp_less_exp [rotated]) simp
  then have "971 < floor_log2 ?n (Suc 0) - 52"
    using floor_log2_1 [OF pos] by simp
  then show ?thesis
    using pos
    by (auto simp: float_of_int_def round_to_double_def Let_def)
qed

lemma float_of_int_in_range:
  assumes "\<bar>i\<bar> < 2 ^ 1023"
  shows "\<exists>x. float_of_int i = Inr x"
proof (cases "i = 0")
  case True
  then show ?thesis by (simp add: float_of_int_def round_to_double_def)
next
  case False
  let ?n = "nat \<bar>i\<bar>"
  have pos: "0 < ?n" using False by simp
  have n: "?n < 2 ^ 1023"
    using assms by (simp add: nat_less_iff)
  have "(2::nat) ^ (bit_length ?n - 1) < 2 ^ 1023"
    using bit_length_lower [OF pos] n by (rule le_less_trans)
  then have "bit_length ?n - 1 < 1023"
    by (rule power_less_imp_less_exp [rotated]) simp
  then have "bit_length ?n \<le> 1023"
    using bit_length_pos [OF pos] by linarith
  then have "floor_log2 ?n (Suc 0) - 52 \<le> 970"
    using floor_log2_1 [OF pos] by linarith
  then show ?thesis
    using pos
    by (auto simp: float_of_int_def round_to_double_def Let_def max_def)
qed

section \<open>Price calculator: the claims\<close>

lemma unit_price_table_lookup:
  "unit_price P region model field =
     (case map_of P (u ''default'') of
        None \<Rightarrow> Inl (KeyError (u ''default''))
      | Some d \<Rightarrow>
          (case map_of d model of
             None \<Rightarrow> Inl (KeyError model)
           | Some e \<Rightarrow>
               (case map_of e field of
                  None \<Rightarrow> Inl (KeyError field)
                | Some dv \<Rightarrow>
                    Inr (case table_lookup P region model field of
                           None \<Rightarrow> dv
                         | Some v \<Rightarrow> v))))"
  by (simp add: unit_price_def subscript_def dict_get_def table_lookup_def Let_def
      split: option.splits)

lemma price_per_thousand_cases:
  "price_per_thousand price tokens =
     (case float_of_int tokens of
        Inl e \<Rightarrow> Inl e
      | Inr x \<Rightarrow> Inr (ieee_div (ieee_mul price x) float_1000))"
  by (simp add: price_per_thousand_def float_mul_int_def float_truediv_def float_1000_def
      split: sum.splits)

lemma float_of_int_Inl: "float_of_int i = Inl e \<Longrightarrow> e = OverflowError"
  by (auto simp: float_of_int_def split: double.splits)

lemma float_of_int_1000: "float_of_int 1000 = Inr float_1000"
  by (simp add: float_of_int_def round_to_double_def floor_log2_def round_half_even_def
      bit_length.simps float_1000_def Let_def)

lemma float_of_int_500: "float_of_int 500 = Inr (Finite False 8796093022208000 (- 44))"
  by (simp add: float_of_int_def round_to_double_def floor_log2_def round_half_even_def
      bit_length.simps Let_def)

lemma example_sonnet_sum:
  "ieee_add (ieee_div (ieee_mul f_0_003 float_1000) float_1000)
            (ieee_div (ieee_mul f_0_015 (Finite False 8796093022208000 (- 44))) float_1000)
     = Finite False 6052837899185946 (- 59)"
  by (simp add: f_0_003_def f_0_015_def float_1000_def round_to_double_def floor_log2_def
      round_half_even_def bit_length.simps Let_def signed_def)

lemma example_opus_region_sum:
  "ieee_add (ieee_div (ieee_mul f_0_02 float_1000) float_1000)
            (ieee_div (ieee_mul f_0_075 (Finite False 8796093022208000 (- 44))) float_1000)
     = Finite False 8286623314361712 (- 57)"
  by (simp add: f_0_02_def f_0_075_def float_1000_def round_to_double_def floor_log2_def
      round_half_even_def bit_length.simps Let_def signed_def)

lemma example_opus_default_sum:
  "ieee_add (ieee_div (ieee_mul f_0_015 float_1000) float_1000)
            (ieee_div (ieee_mul f_0_075 (Finite False 8796093022208000 (- 44))) float_1000)
     = Finite False 7566047373982433 (- 57)"
  by (simp add: f_0_015_def f_0_075_def float_1000_def round_to_double_def floor_log2_def
      round_half_even_def bit_length.simps Let_def signed_def)

lemma example_lookups:
  "table_lookup example_pricing (u ''default'') (u ''claude-v3-opus'') (u ''input'') = Some f_0_015"
  "table_lookup example_pricing (u ''default'') (u ''claude-v3-opus'') (u ''output'') = Some f_0_075"
  "table_lookup example_pricing (u ''us-east-1'') (u ''claude-v3-opus'') (u ''input'') = Some f_0_02"
  "table_lookup example_pricing (u ''us-east-1'') (u ''claude-v3-opus'') (u ''output'') = None"
  "table_lookup example_pricing (u ''eu-west-1'') (u ''claude-v3-opus'') (u ''input'') = None"
  "table_lookup example_pricing (u ''eu-west-1'') (u ''claude-v3-opus'') (u ''output'') = None"
  "table_lookup example_pricing (u ''default'') (u ''claude-v3-sonnet'') (u ''input'') = Some f_0_003"
  "table_lookup example_pricing (u ''default'') (u ''claude-v3-sonnet'') (u ''output'') = Some f_0_015"
  "table_lookup example_pricing (u ''us-east-1'') (u ''claude-v3-sonnet'') (u ''input'') = None"
  "table_lookup example_pricing (u ''us-east-1'') (u ''claude-v3-sonnet'') (u ''output'') = None"
  "table_lookup example_pricing (u ''default'') (u ''claude-v2'') (u ''input'') = None"
  "table_lookup example_pricing (u ''us-east-1'') (u ''claude-v3-haiku'') (u ''input'') = Some f_0_00025"
  "table_lookup example_pricing (u ''us-east-1'') (u ''claude-v3-haiku'') (u ''output'') = Some f_0_00125"
  by (simp_all add: table_lookup_def example_pricing_def example_default_prices_def)

lemma example_default_table: "map_of example_pricing (u ''default'') = Some example_default_prices"
  by (simp add: example_pricing_def)

lemma example_default_no_haiku: "map_of example_default_prices (u ''claude-v3-haiku'') = None"
  by (simp add: example_default_prices_def)

lemma huge_token_count: "(2::int) ^ 1024 \<le> \<bar>10 ^ 400\<bar>"
  by simp

text \<open>
  C5. The claim as stated fails at two inputs. With both prices of the model in the
  region's table and the model absent from the default table, the call raises \<open>KeyError\<close>
  instead of pricing with the region's prices. With both prices in the default table and
  an input token count of \<open>10 ^ 400\<close>, the call raises \<open>OverflowError\<close>.
\<close>

theorem calculate_price_every_input_counterexample:
  "table_lookup example_pricing (u ''us-east-1'') (u ''claude-v3-haiku'') (u ''input'')
     = Some f_0_00025 \<and>
   table_lookup example_pricing (u ''us-east-1'') (u ''claude-v3-haiku'') (u ''output'')
     = Some f_0_00125 \<and>
   calculate_price example_pricing (u ''claude-v3-haiku'') 1000 500 (u ''us-east-1'')
     = Inl (KeyError (u ''claude-v3-haiku'')) \<and>
   table_lookup example_pricing (u ''default'') (u ''claude-v3-sonnet'') (u ''input'')
     = Some f_0_003 \<and>
   table_lookup example_pricing (u ''default'') (u ''claude-v3-sonnet'') (u ''output'')
     = Some f_0_015 \<and>
   calculate_price example_pricing (u ''claude-v3-sonnet'') (10 ^ 400) 500 (u ''us-east-1'')
     = Inl OverflowError"
proof -
  have a: "calculate_price example_pricing (u ''claude-v3-haiku'') 1000 500 (u ''us-east-1'')
     = Inl (KeyError (u ''claude-v3-haiku''))"
    by (simp add: calculate_price_def unit_price_table_lookup example_default_table
        example_default_no_haiku)
  have "float_of_int (10 ^ 400) = Inl OverflowError"
    using huge_token_count by (rule float_of_int_overflow)
  then have b: "calculate_price example_pricing (u ''claude-v3-sonnet'') (10 ^ 400) 500
                  (u ''us-east-1'') = Inl OverflowError"
    by (simp add: calculate_price_def unit_price_table_lookup example_default_table
        example_default_prices_def price_per_thousand_cases)
  show ?thesis
    using a b by (simp add: example_lookups)
qed

text \<open>
  C5, amended. When the default table holds both unit prices of the model and both token
  counts convert to float, the price is the float
  \<open>input_price * input_tokens / 1000.0 + output_price * output_tokens / 1000.0\<close>, computed
  in double arithmetic in that order, where each unit price is the region's entry for that
  field if the region, the model and the field are all present there, and the default
  table's entry otherwise. Token counts of magnitude below \<open>2 ^ 1023\<close> always give a price;
  a token count of magnitude \<open>2 ^ 1024\<close> or more raises \<open>OverflowError\<close>. When the default
  table lacks one of the two unit prices of the model, the call raises a \<open>KeyError\<close>,
  whatever the region's table holds.
\<close>

theorem calculate_price_fallback:
  "(\<forall>default_input default_output.
      table_lookup BEDROCK_PRICING (u ''default'') model (u ''input'') = Some default_input \<and>
      table_lookup BEDROCK_PRICING (u ''default'') model (u ''output'') = Some default_output \<longrightarrow>
      (\<forall>x y. float_of_int input_tokens = Inr x \<and> float_of_int output_tokens = Inr y \<longrightarrow>
         calculate_price BEDROCK_PRICING model input_tokens output_tokens region =
           Inr (ieee_add
                  (ieee_div
                     (ieee_mul
                        (case table_lookup BEDROCK_PRICING region model (u ''input'') of
                           Some p \<Rightarrow> p | None \<Rightarrow> default_input) x)
                     float_1000)
                  (ieee_div
                     (ieee_mul
                        (case table_lookup BEDROCK_PRICING region model (u ''output'') of
                           Some p \<Rightarrow> p | None \<Rightarrow> default_output) y)
                     float_1000))) \<and>
      (\<bar>input_tokens\<bar> < 2 ^ 1023 \<and> \<bar>output_tokens\<bar> < 2 ^ 1023 \<longrightarrow>
         (\<exists>cost. calculate_price BEDROCK_PRICING model input_tokens output_tokens region
                   = Inr cost)) \<and>
      (2 ^ 1024 \<le> \<bar>input_tokens\<bar> \<or> 2 ^ 1024 \<le> \<bar>output_tokens\<bar> \<longrightarrow>
         calculate_price BEDROCK_PRICING model input_tokens output_tokens region
           = Inl OverflowError)) \<and>
   (table_lookup BEDROCK_PRICING (u ''default'') model (u ''input'') = None \<or>
    table_lookup BEDROCK_PRICING (u ''default'') model (u ''output'') = None \<longrightarrow>
      (\<exists>k. calculate_price BEDROCK_PRICING model input_tokens output_tokens region
              = Inl (KeyError k)))"
proof (intro conjI allI impI)
  fix default_input default_output x y
  assume d: "table_lookup BEDROCK_PRICING (u ''default'') model (u ''input'') = Some default_input \<and>
      table_lookup BEDROCK_PRICING (u ''default'') model (u ''output'') = Some default_output"
    and f: "float_of_int input_tokens = Inr x \<and> float_of_int output_tokens = Inr y"
  from d f show "calculate_price BEDROCK_PRICING model input_tokens output_tokens region =
           Inr (ieee_add
                  (ieee_div
                     (ieee_mul
                        (case table_lookup BEDROCK_PRICING region model (u ''input'') of
                           Some p \<Rightarrow> p | None \<Rightarrow> default_input) x)
                     float_1000)
                  (ieee_div
                     (ieee_mul
                        (case table_lookup BEDROCK_PRICING region model (u ''output'') of
                           Some p \<Rightarrow> p | None \<Rightarrow> default_output) y)
                     float_1000))"
    by (auto simp: calculate_price_def unit_price_table_lookup table_lookup_def
        price_per_thousand_cases split: option.splits)
next
  fix default_input default_output
  assume d: "table_lookup BEDROCK_PRICING (u ''default'') model (u ''input'') = Some default_input \<and>
      table_lookup BEDROCK_PRICING (u ''default'') model (u ''output'') = Some default_output"
    and r: "\<bar>input_tokens\<bar> < 2 ^ 1023 \<and> \<bar>output_tokens\<bar> < 2 ^ 1023"
  from r obtain x y where "float_of_int input_tokens = Inr x" "float_of_int output_tokens = Inr y"
    using float_of_int_in_range by blast
  with d show "\<exists>cost. calculate_price BEDROCK_PRICING model input_tokens output_tokens region
                   = Inr cost"
    by (auto simp: calculate_price_def unit_price_table_lookup table_lookup_def
        price_per_thousand_cases split: option.splits)
next
  fix default_input default_output
  assume d: "table_lookup BEDROCK_PRICING (u ''default'') model (u ''input'') = Some default_input \<and>
      table_lookup BEDROCK_PRICING (u ''default'') model (u ''output'') = Some default_output"
    and r: "2 ^ 1024 \<le> \<bar>input_tokens\<bar> \<or> 2 ^ 1024 \<le> \<bar>output_tokens\<bar>"
  from r have "float_of_int input_tokens = Inl OverflowError \<or>
               float_of_int output_tokens = Inl OverflowError"
    using float_of_int_overflow by blast
  with d show "calculate_price BEDROCK_PRICING model input_tokens output_tokens region
           = Inl OverflowError"
    by (auto simp: calculate_price_def unit_price_table_lookup table_lookup_def
        price_per_thousand_cases split: option.splits sum.splits dest: float_of_int_Inl)
next
  assume "table_lookup BEDROCK_PRICING (u ''default'') model (u ''input'') = None \<or>
    table_lookup BEDROCK_PRICING (u ''default'') model (u ''output'') = None"
  then show "\<exists>k. calculate_price BEDROCK_PRICING model input_tokens output_tokens region
              = Inl (KeyError k)"
    by (auto simp: calculate_price_def unit_price_table_lookup table_lookup_def
        split: option.splits)
qed

theorem calculate_price_fallback_witness:
  "table_lookup example_pricing (u ''default'') (u ''claude-v3-sonnet'') (u ''input'')
     = Some f_0_003 \<and>
   table_lookup example_pricing (u ''default'') (u ''claude-v3-sonnet'') (u ''output'')
     = Some f_0_015 \<and>
   float_of_int 1000 = Inr float_1000 \<and>
   float_of_int 500 = Inr (Finite False 8796093022208000 (- 44)) \<and>
   calculate_price example_pricing (u ''claude-v3-sonnet'') 1000 500 (u ''us-east-1'')
     = Inr (Finite False 6052837899185946 (- 59)) \<and>
   calculate_price example_pricing (u ''claude-v3-opus'') 1000 500 (u ''us-east-1'')
     = Inr (Finite False 8286623314361712 (- 57)) \<and>
   calculate_price example_pricing (u ''claude-v3-opus'') 1000 500 (u ''eu-west-1'')
     = Inr (Finite False 7566047373982433 (- 57)) \<and>
   (2::int) ^ 1024 \<le> \<bar>10 ^ 400\<bar> \<and>
   calculate_price example_pricing (u ''claude-v3-opus'') 1000 (10 ^ 400) (u ''eu-west-1'')
     = Inl OverflowError \<and>
   table_lookup example_pricing (u ''default'') (u ''claude-v2'') (u ''input'') = None \<and>
   (\<exists>k. calculate_price example_pricing (u ''claude-v2'') 1000 500 (u ''us-east-1'')
          = Inl (KeyError k))"
proof -
  note f = float_of_int_1000 float_of_int_500
  have sonnet: "calculate_price example_pricing (u ''claude-v3-sonnet'') 1000 500 (u ''us-east-1'')
     = Inr (Finite False 6052837899185946 (- 59))"
    using calculate_price_fallback
            [of example_pricing "u ''claude-v3-sonnet''" 1000 500 "u ''us-east-1''"]
    by (simp add: example_lookups f example_sonnet_sum)
  have opus_us: "calculate_price example_pricing (u ''claude-v3-opus'') 1000 500 (u ''us-east-1'')
     = Inr (Finite False 8286623314361712 (- 57))"
    using calculate_price_fallback
            [of example_pricing "u ''claude-v3-opus''" 1000 500 "u ''us-east-1''"]
    by (simp add: example_lookups f example_opus_region_sum)
  have opus_eu: "calculate_price example_pricing (u ''claude-v3-opus'') 1000 500 (u ''eu-west-1'')
     = Inr (Finite False 7566047373982433 (- 57))"
    using calculate_price_fallback
            [of example_pricing "u ''claude-v3-opus''" 1000 500 "u ''eu-west-1''"]
    by (simp add: example_lookups f example_opus_default_sum)
  have over: "calculate_price example_pricing (u ''claude-v3-opus'') 1000 (10 ^ 400)
                (u ''eu-west-1'') = Inl OverflowError"
    using calculate_price_fallback
            [of example_pricing "u ''claude-v3-opus''" 1000 "10 ^ 400" "u ''eu-west-1''"]
      huge_token_count
    by (simp only: example_lookups) blast
  have missing: "\<exists>k. calculate_price example_pricing (u ''claude-v2'') 1000 500 (u ''us-east-1'')
          = Inl (KeyError k)"
    using calculate_price_fallback
            [of example_pricing "u ''claude-v2''" 1000 500 "u ''us-east-1''"]
    by (simp add: example_lookups)
  show ?thesis
    using sonnet opus_us opus_eu over missing huge_token_count
    by (simp add: example_lookups f)
qed

text \<open>
  C10. A model that the default table does not list cannot be priced: the call raises
  \<open>KeyError\<close> for the model even when the region's table holds both of its prices, since
  the default entry is computed before each per-field lookup.
\<close>

theorem calculate_price_default_missing:
  assumes "map_of BEDROCK_PRICING (u ''default'') = Some by_model"
    and "map_of by_model model = None"
  shows "calculate_price BEDROCK_PRICING model input_tokens output_tokens region
           = Inl (KeyError model)"
  using assms by (simp add: calculate_price_def unit_price_table_lookup)

theorem calculate_price_default_missing_witness:
  "map_of example_pricing (u ''default'') = Some example_default_prices \<and>
   map_of example_default_prices (u ''claude-v3-haiku'') = None \<and>
   table_lookup example_pricing (u ''us-east-1'') (u ''claude-v3-haiku'') (u ''input'')
     = Some f_0_00025 \<and>
   table_lookup example_pricing (u ''us-east-1'') (u ''claude-v3-haiku'') (u ''output'')
     = Some f_0_00125 \<and>
   calculate_price example_pricing (u ''claude-v3-haiku'') 1000 500 (u ''us-east-1'')
     = Inl (KeyError (u ''claude-v3-haiku''))"
  using calculate_price_default_missing
          [OF example_default_table example_default_no_haiku, of 1000 500 "u ''us-east-1''"]
    example_default_table example_default_no_haiku
  by (simp add: example_lookups)

section \<open>Request composer: helper facts\<close>

lemma is_str_iff: "is_str v \<longleftrightarrow> (\<exists>s. v = PStr s)"
  by (cases v) simp_all

lemma dict_merge_other:
  "k \<notin> fst ` set b \<Longrightarrow> map_of (dict_merge a b) k = map_of a k"
  unfolding dict_merge_def
  by (induction b arbitrary: a) (auto simp: update_conv')

lemma compose_Inr:
  assumes "compose_args_for_converse_api E messages model instruction stream generation_params
             grounding_source guardrail = Inr req"
  shows "\<exists>arg_messages ic ad mid.
           traverse (arg_message E grounding_source guardrail)
             (filter (\<lambda>m. role m \<notin> {u ''system'', u ''instruction''}) messages) = Inr arg_messages \<and>
           get_model_id model (ENABLE_BEDROCK_CROSS_REGION_INFERENCE E) (BEDROCK_REGION E) = Inr mid \<and>
           req = [(u ''inference_config'', PDict ic),
                  (u ''additional_model_request_fields'', PDict ad),
                  (u ''model_id'', PStr mid),
                  (u ''messages'', PList arg_messages),
                  (u ''stream'', PBool stream),
                  (u ''system'',
                     if truthy instruction
                     then PList [PDict [(u ''text'', PStr (the instruction))]]
                     else PList [])]
                 @ (if guardrail_supplied guardrail then
                      [(u ''guardrailConfig'',
                        PDict ([(u ''guardrailIdentifier'', PStr (guardrail_arn (the guardrail))),
                                (u ''guardrailVersion'', PStr (guardrail_version (the guardrail))),
                                (u ''trace'', PStr (u ''enabled''))]
                               @ (if stream then [(u ''streamProcessingMode'', PStr (u ''async''))]
                                  else [])))]
                    else [])"
  using assms
  by (auto simp: compose_args_for_converse_api_def Let_def
      split: sum.splits option.splits if_splits)

lemma compose_returns:
  assumes "traverse (arg_message E grounding_source guardrail)
             (filter (\<lambda>m. role m \<notin> {u ''system'', u ''instruction''}) messages) = Inr arg_messages"
    and "map_of (DEFAULT_GENERATION_CONFIG E) (u ''top_k'') = Some k"
    and "map_of base_model_ids model = Some b"
  shows "\<exists>req. compose_args_for_converse_api E messages model instruction stream
                 generation_params grounding_source guardrail = Inr req"
proof -
  have "map_of (dict_merge (DEFAULT_GENERATION_CONFIG E)
          (case generation_params of
             Some gp \<Rightarrow>
               [(u ''maxTokens'', max_tokens gp),
                (u ''temperature'', temperature gp),
                (u ''topP'', top_p gp),
                (u ''stopSequences'', stop_sequences gp)]
           | None \<Rightarrow> [])) (u ''top_k'') = Some k"
    using assms(2) by (subst dict_merge_other) (auto split: option.splits)
  moreover have "\<exists>mid. get_model_id model (ENABLE_BEDROCK_CROSS_REGION_INFERENCE E) (BEDROCK_REGION E) = Inr mid"
    using assms(3) base_model_id_nonempty[OF assms(3)]
    by (auto simp: get_model_id_def split: option.splits)
  ultimately show ?thesis
    using assms(1)
    by (auto simp: compose_args_for_converse_api_def Let_def)
qed

lemma example_top_k:
  "map_of (DEFAULT_GENERATION_CONFIG example_environment) (u ''top_k'') = Some (PInt 250)"
  by (simp add: example_environment_def)

lemma claude_v2_base: "map_of base_model_ids (u ''claude-v2'') = Some (u ''anthropic.claude-v2:1'')"
  by (simp add: base_model_ids_def)

lemma example_get_model_id:
  "get_model_id (u ''claude-v2'') False r = Inr (u ''anthropic.claude-v2:1'')"
  by (simp add: get_model_id_def claude_v2_base)

subsection \<open>The file-name sanitizer\<close>

lemma collapse_ws_set: "set (collapse_ws xs) \<subseteq> {c \<in> set xs. \<not> is_space c} \<union> {32}"
proof (induction xs rule: collapse_ws.induct)
  case 1
  show ?case by simp
next
  case (2 x xs)
  show ?case
  proof (cases "is_space x")
    case True
    with 2 have "set (collapse_ws (dropWhile is_space xs))
                   \<subseteq> {c \<in> set (dropWhile is_space xs). \<not> is_space c} \<union> {32}"
      by simp
    moreover have "set (dropWhile is_space xs) \<subseteq> set xs"
      by (auto dest: set_dropWhileD)
    ultimately show ?thesis using True by auto
  next
    case False
    with 2 show ?thesis by auto
  qed
qed

lemma collapse_ws_hd:
  "xs \<noteq> [] \<Longrightarrow> \<not> is_space (hd xs) \<Longrightarrow> collapse_ws xs \<noteq> [] \<and> hd (collapse_ws xs) = hd xs"
  by (cases xs) simp_all

lemma adjacent_spaces_Cons:
  "adjacent_spaces (a # zs) \<longleftrightarrow> (zs \<noteq> [] \<and> is_space a \<and> is_space (hd zs)) \<or> adjacent_spaces zs"
  by (cases zs) auto

lemma collapse_ws_no_adjacent: "\<not> adjacent_spaces (collapse_ws xs)"
proof (induction xs rule: collapse_ws.induct)
  case 1
  show ?case by simp
next
  case (2 x xs)
  show ?case
  proof (cases "is_space x")
    case True
    let ?ys = "dropWhile is_space xs"
    from 2 True have ih: "\<not> adjacent_spaces (collapse_ws ?ys)" by simp
    have "collapse_ws ?ys \<noteq> [] \<Longrightarrow> \<not> is_space (hd (collapse_ws ?ys))"
    proof -
      assume ne: "collapse_ws ?ys \<noteq> []"
      then have "?ys \<noteq> []" by (metis collapse_ws.simps(1))
      then have "\<not> is_space (hd ?ys)" by (rule hd_dropWhile)
      with \<open>?ys \<noteq> []\<close> show ?thesis using collapse_ws_hd by simp
    qed
    with ih True show ?thesis by (auto simp: adjacent_spaces_Cons)
  next
    case False
    with 2 show ?thesis by (simp add: adjacent_spaces_Cons)
  qed
qed

lemma adjacent_spaces_appendI1: "adjacent_spaces xs \<Longrightarrow> adjacent_spaces (xs @ ys)"
  by (induction xs rule: adjacent_spaces.induct) auto

lemma adjacent_spaces_appendI2: "adjacent_spaces ys \<Longrightarrow> adjacent_spaces (xs @ ys)"
  by (induction xs) (auto simp: adjacent_spaces_Cons)

lemma strip_no_adjacent:
  assumes "\<not> adjacent_spaces s"
  shows "\<not> adjacent_spaces (strip s)"
proof -
  let ?ys = "dropWhile is_space s"
  have "s = takeWhile is_space s @ ?ys" by simp
  with assms have ys: "\<not> adjacent_spaces ?ys"
    using adjacent_spaces_appendI2 by metis
  have "rev ?ys = takeWhile is_space (rev ?ys) @ dropWhile is_space (rev ?ys)" by simp
  then have "?ys = rev (dropWhile is_space (rev ?ys)) @ rev (takeWhile is_space (rev ?ys))"
    by (metis rev_append rev_rev_ident)
  with ys show ?thesis
    unfolding strip_def using adjacent_spaces_appendI1 by metis
qed

lemma last_dropWhile_snoc: "\<not> P y \<Longrightarrow> last (dropWhile P (xs @ [y])) = y"
  by (simp add: dropWhile_append)

lemma strip_ends:
  assumes "strip s \<noteq> []"
  shows "\<not> is_space (hd (strip s)) \<and> \<not> is_space (last (strip s))"
proof -
  let ?ys = "dropWhile is_space s"
  let ?zs = "dropWhile is_space (rev ?ys)"
  from assms have zs: "?zs \<noteq> []" by (simp add: strip_def)
  then have ys: "?ys \<noteq> []" by (metis dropWhile.simps(1) rev.simps(1))
  then have h: "\<not> is_space (hd ?ys)" by (rule hd_dropWhile)
  have "rev ?ys = rev (tl ?ys) @ [hd ?ys]"
    using ys by (metis hd_Cons_tl rev.simps(2))
  then have "last ?zs = hd ?ys"
    using h last_dropWhile_snoc by metis
  moreover have "\<not> is_space (hd ?zs)" using zs by (rule hd_dropWhile)
  ultimately show ?thesis
    using zs h by (simp add: strip_def hd_rev last_rev)
qed

lemma strip_set: "set (strip s) \<subseteq> set s"
  unfolding strip_def by (auto dest!: set_dropWhileD)

lemma convert_to_valid_file_name_chars:
  assumes "ch \<in> set (convert_to_valid_file_name s)"
  shows "is_alnum_ascii ch \<or> ch \<in> {32, 45, 40, 41, 91, 93}"
proof -
  from assms have "ch \<in> set (collapse_ws (filter is_valid_char s))"
    unfolding convert_to_valid_file_name_def using strip_set by blast
  then have "ch = 32 \<or> (is_valid_char ch \<and> \<not> is_space ch)"
    using collapse_ws_set [of "filter is_valid_char s"] by auto
  then show ?thesis by (auto simp: is_valid_char_def)
qed

lemma supported_format_cases:
  "get_converse_supported_format ext =
     (if ext \<in> set (map u [''pdf'', ''csv'', ''doc'', ''docx'', ''xls'', ''xlsx'', ''html'', ''txt'', ''md''])
      then ext else u ''txt'')"
  by (auto simp: get_converse_supported_format_def)

lemma resume_name: "path_name resume_file_name = resume_file_name"
  by (simp add: resume_file_name_def path_name_def u_def)

lemma resume_stem: "path_stem resume_file_name = u ''My R'' @ [233] @ u ''sum'' @ [233] @ u '' (v2)''"
  by (simp add: path_stem_def resume_name Let_def) (simp add: resume_file_name_def u_def)

lemma resume_suffix: "path_suffix resume_file_name = u ''.pdf!!''"
  by (simp add: path_suffix_def resume_name Let_def) (simp add: resume_file_name_def u_def)

lemma resume_sanitized: "convert_to_valid_file_name (path_stem resume_file_name) = u ''My Rsum (v2)''"
  by (simp add: resume_stem convert_to_valid_file_name_def)
     (simp add: u_def is_valid_char_def is_alnum_ascii_def is_space_def strip_def)

lemma resume_format: "get_converse_supported_format (drop (Suc 0) (path_suffix resume_file_name)) = u ''txt''"
  by (simp add: resume_suffix get_converse_supported_format_def)
     (simp add: u_def)

lemma report_stem: "path_stem (u ''docs/Q3  report_[final].pdf'') = u ''Q3  report_[final]''"
  by (simp add: path_stem_def path_name_def Let_def u_def)

lemma report_suffix: "path_suffix (u ''docs/Q3  report_[final].pdf'') = u ''.pdf''"
  by (simp add: path_suffix_def path_name_def Let_def u_def)

lemma report_name:
  "strip (collapse_ws (filter is_valid_char (u ''Q3  report_[final]''))) = u ''Q3 report[final]''"
  by (simp add: u_def is_valid_char_def is_alnum_ascii_def is_space_def strip_def)

subsection \<open>Where exceptions come from\<close>













section \<open>Request composer: the claims\<close>

text \<open>
  C2. A call with exactly one user turn that holds one text block, with no guardrail, no
  grounding source and no instruction: every request it returns has \<open>system\<close> equal to the
  empty list, the one message \<open>{"role": "user", "content": [{"text": body}]}\<close> and no
  \<open>guardrailConfig\<close> key; and it does return a request when the model has a base id and the
  default generation configuration holds \<open>top_k\<close>.
\<close>

theorem compose_single_user_text:
  assumes "content_type c = u ''text''"
  shows "(\<forall>req. compose_args_for_converse_api E [\<lparr>role = u ''user'', content = [c]\<rparr>] model
                 None stream generation_params PNone None = Inr req \<longrightarrow>
            map_of req (u ''system'') = Some (PList []) \<and>
            map_of req (u ''messages'')
              = Some (PList [PDict [(u ''role'', PStr (u ''user'')),
                                    (u ''content'', PList [PDict [(u ''text'', body c)]])]]) \<and>
            map_of req (u ''guardrailConfig'') = None) \<and>
         (map_of base_model_ids model \<noteq> None \<and>
          map_of (DEFAULT_GENERATION_CONFIG E) (u ''top_k'') \<noteq> None \<longrightarrow>
            (\<exists>req. compose_args_for_converse_api E [\<lparr>role = u ''user'', content = [c]\<rparr>] model
                 None stream generation_params PNone None = Inr req))"
proof -
  have pc: "process_content E PNone None c (u ''user'') = Inr [PDict [(u ''text'', body c)]]"
    using assms by (simp add: process_content_def)
  have tr: "traverse (arg_message E PNone None)
              (filter (\<lambda>m. role m \<notin> {u ''system'', u ''instruction''})
                 [\<lparr>role = u ''user'', content = [c]\<rparr>])
            = Inr [PDict [(u ''role'', PStr (u ''user'')),
                          (u ''content'', PList [PDict [(u ''text'', body c)]])]]"
    by (simp add: arg_message_def pc)
  show ?thesis
  proof (rule conjI; intro allI impI)
    fix req
    assume "compose_args_for_converse_api E [\<lparr>role = u ''user'', content = [c]\<rparr>] model
                 None stream generation_params PNone None = Inr req"
    from compose_Inr [OF this] tr
    show "map_of req (u ''system'') = Some (PList []) \<and>
            map_of req (u ''messages'')
              = Some (PList [PDict [(u ''role'', PStr (u ''user'')),
                                    (u ''content'', PList [PDict [(u ''text'', body c)]])]]) \<and>
            map_of req (u ''guardrailConfig'') = None"
      by (auto simp: guardrail_supplied_def)
  next
    assume "map_of base_model_ids model \<noteq> None \<and>
          map_of (DEFAULT_GENERATION_CONFIG E) (u ''top_k'') \<noteq> None"
    then show "\<exists>req. compose_args_for_converse_api E [\<lparr>role = u ''user'', content = [c]\<rparr>] model
                 None stream generation_params PNone None = Inr req"
      using compose_returns [OF tr] by auto
  qed
qed

theorem compose_single_user_text_witness:
  "content_type hello_block = u ''text'' \<and>
   map_of base_model_ids (u ''claude-v2'') \<noteq> None \<and>
   map_of (DEFAULT_GENERATION_CONFIG example_environment) (u ''top_k'') \<noteq> None \<and>
   (\<exists>req. compose_args_for_converse_api example_environment
             [\<lparr>role = u ''user'', content = [hello_block]\<rparr>] (u ''claude-v2'')
             None False None PNone None = Inr req \<and>
          map_of req (u ''system'') = Some (PList []) \<and>
          map_of req (u ''messages'')
            = Some (PList [PDict [(u ''role'', PStr (u ''user'')),
                                  (u ''content'', PList [PDict [(u ''text'', PStr (u ''hello''))]])]]) \<and>
          map_of req (u ''guardrailConfig'') = None)"
proof -
  have a: "content_type hello_block = u ''text''"
    by (simp add: hello_block_def)
  have b: "body hello_block = PStr (u ''hello'')"
    by (simp add: hello_block_def)
  have c: "map_of base_model_ids (u ''claude-v2'') \<noteq> None"
    by (simp add: claude_v2_base)
  have d: "map_of (DEFAULT_GENERATION_CONFIG example_environment) (u ''top_k'') \<noteq> None"
    by (simp add: example_top_k)
  show ?thesis
    using compose_single_user_text
            [OF a, of example_environment "u ''claude-v2''" False None] a b c d
    by auto
qed

text \<open>
  C3. A text block of a user turn, composed with a guardrail whose grounding threshold is
  positive, yields two blocks: the grounding source as guard content, then the text as a
  guard content query. Whenever translating a block returns a number of blocks other than
  one, it is this case and the number is two.
\<close>

theorem process_content_guarded_query:
  "(content_type c = u ''text'' \<and> r = u ''user'' \<and> guardrail = Some g \<and>
      grounding_threshold g > 0 \<longrightarrow>
      process_content E grounding_source guardrail c r =
        Inr [PDict [(u ''guardContent'', grounding_source)],
             PDict [(u ''guardContent'',
                     PDict [(u ''text'',
                             PDict [(u ''text'', body c),
                                    (u ''qualifiers'', PList [PStr (u ''query'')])])])]]) \<and>
   (\<forall>blocks. process_content E grounding_source guardrail c r = Inr blocks \<and>
        length blocks \<noteq> 1 \<longrightarrow>
      content_type c = u ''text'' \<and> r = u ''user'' \<and>
      (\<exists>g. guardrail = Some g \<and> grounding_threshold g > 0) \<and> length blocks = 2)"
  by (auto simp: process_content_def split: option.splits sum.splits if_splits)

theorem process_content_guarded_query_witness:
  "content_type hello_block = u ''text'' \<and>
   grounding_threshold example_guardrail > 0 \<and>
   process_content example_environment (PDict [(u ''text'', PStr (u ''source''))])
       (Some example_guardrail) hello_block (u ''user'') =
     Inr [PDict [(u ''guardContent'', PDict [(u ''text'', PStr (u ''source''))])],
          PDict [(u ''guardContent'',
                  PDict [(u ''text'',
                          PDict [(u ''text'', PStr (u ''hello'')),
                                 (u ''qualifiers'', PList [PStr (u ''query'')])])])]] \<and>
   process_content example_environment (PDict [(u ''text'', PStr (u ''source''))])
       (Some example_guardrail) hello_block (u ''assistant'') =
     Inr [PDict [(u ''text'', PStr (u ''hello''))]]"
proof -
  have a: "content_type hello_block = u ''text''" "body hello_block = PStr (u ''hello'')"
    by (simp_all add: hello_block_def)
  have b: "grounding_threshold example_guardrail > 0"
    by (simp add: example_guardrail_def)
  have c: "process_content example_environment (PDict [(u ''text'', PStr (u ''source''))])
       (Some example_guardrail) hello_block (u ''assistant'') =
     Inr [PDict [(u ''text'', PStr (u ''hello''))]]"
    by (simp add: process_content_def a)
  show ?thesis
    using process_content_guarded_query
            [of hello_block "u ''user''" "Some example_guardrail" example_guardrail
                example_environment "PDict [(u ''text'', PStr (u ''source''))]"]
          process_content_guarded_query
            [of hello_block "u ''assistant''" "Some example_guardrail" example_guardrail
                example_environment "PDict [(u ''text'', PStr (u ''source''))]"]
          a b c
    by simp
qed

text \<open>
  C4. The claim as stated fails on its own example: the name is taken from the stem of the
  file name, so for the accented \<open>My Resume (v2).pdf!!\<close> the emitted name is
  \<open>My Rsum (v2)\<close>, not \<open>My Rsum (v2).pdf\<close> (and the format is \<open>txt\<close>, since the
  extension is \<open>pdf!!\<close>).
\<close>

theorem process_content_attachment_counterexample:
  "process_content example_environment PNone None resume_attachment (u ''user'') =
     Inr [PDict [(u ''document'',
                  PDict [(u ''format'', PStr (u ''txt'')),
                         (u ''name'', PStr (u ''My Rsum (v2)'')),
                         (u ''source'', PDict [(u ''bytes'', PBytes [])])])]] \<and>
   u ''My Rsum (v2)'' \<noteq> u ''My Rsum (v2).pdf''"
  by (simp add: process_content_def resume_attachment_def example_environment_def resume_sanitized resume_format)

text \<open>
  C4, amended. An attachment block with a file name and a body that decodes yields exactly
  one document block. Its format is the extension (the text after the last dot of the last
  path component) if that is one of pdf, csv, doc, docx, xls, xlsx, html, txt, md, and
  \<open>txt\<close> otherwise. Its name is the stem with every character outside the class removed,
  whitespace runs collapsed to one space and the ends trimmed: it holds only ASCII letters,
  digits, spaces, hyphens, parentheses and square brackets, has no two adjacent whitespace
  characters and neither starts nor ends with whitespace.
\<close>

theorem process_content_attachment:
  assumes "content_type c = u ''attachment''"
    and "file_name c = Some fname"
    and "b64decode E (body c) = Some bytes"
  shows "\<exists>format name.
           process_content E grounding_source guardrail c r =
             Inr [PDict [(u ''document'',
                          PDict [(u ''format'', PStr format),
                                 (u ''name'', PStr name),
                                 (u ''source'', PDict [(u ''bytes'', PBytes bytes)])])]] \<and>
           format = (if drop 1 (path_suffix fname)
                          \<in> set (map u [''pdf'', ''csv'', ''doc'', ''docx'', ''xls'', ''xlsx'',
                                         ''html'', ''txt'', ''md''])
                     then drop 1 (path_suffix fname) else u ''txt'') \<and>
           name = strip (collapse_ws (filter is_valid_char (path_stem fname))) \<and>
           (\<forall>ch \<in> set name. is_alnum_ascii ch \<or> ch \<in> {32, 45, 40, 41, 91, 93}) \<and>
           \<not> adjacent_spaces name \<and>
           (name \<noteq> [] \<longrightarrow> \<not> is_space (hd name) \<and> \<not> is_space (last name))"
proof -
  let ?name = "convert_to_valid_file_name (path_stem fname)"
  let ?format = "get_converse_supported_format (drop 1 (path_suffix fname))"
  have "process_content E grounding_source guardrail c r =
             Inr [PDict [(u ''document'',
                          PDict [(u ''format'', PStr ?format),
                                 (u ''name'', PStr ?name),
                                 (u ''source'', PDict [(u ''bytes'', PBytes bytes)])])]]"
    using assms by (simp add: process_content_def)
  moreover have "?format = (if drop 1 (path_suffix fname)
                          \<in> set (map u [''pdf'', ''csv'', ''doc'', ''docx'', ''xls'', ''xlsx'',
                                         ''html'', ''txt'', ''md''])
                     then drop 1 (path_suffix fname) else u ''txt'')"
    by (rule supported_format_cases)
  moreover have "?name = strip (collapse_ws (filter is_valid_char (path_stem fname)))"
    by (simp add: convert_to_valid_file_name_def)
  moreover have "\<forall>ch \<in> set ?name. is_alnum_ascii ch \<or> ch \<in> {32, 45, 40, 41, 91, 93}"
    using convert_to_valid_file_name_chars by blast
  moreover have "\<not> adjacent_spaces ?name"
    unfolding convert_to_valid_file_name_def
    by (rule strip_no_adjacent) (rule collapse_ws_no_adjacent)
  moreover have "?name \<noteq> [] \<longrightarrow> \<not> is_space (hd ?name) \<and> \<not> is_space (last ?name)"
    unfolding convert_to_valid_file_name_def using strip_ends by blast
  ultimately show ?thesis by blast
qed

theorem process_content_attachment_witness:
  "content_type report_attachment = u ''attachment'' \<and>
   file_name report_attachment = Some (u ''docs/Q3  report_[final].pdf'') \<and>
   b64decode example_environment (body report_attachment) = Some [] \<and>
   process_content example_environment PNone None report_attachment (u ''user'') =
     Inr [PDict [(u ''document'',
                  PDict [(u ''format'', PStr (u ''pdf'')),
                         (u ''name'', PStr (u ''Q3 report[final]'')),
                         (u ''source'', PDict [(u ''bytes'', PBytes [])])])]] \<and>
   content_type resume_attachment = u ''attachment'' \<and>
   file_name resume_attachment = Some resume_file_name \<and>
   b64decode example_environment (body resume_attachment) = Some [] \<and>
   process_content example_environment PNone None resume_attachment (u ''assistant'') =
     Inr [PDict [(u ''document'',
                  PDict [(u ''format'', PStr (u ''txt'')),
                         (u ''name'', PStr (u ''My Rsum (v2)'')),
                         (u ''source'', PDict [(u ''bytes'', PBytes [])])])]]"
proof -
  have a: "content_type report_attachment = u ''attachment''"
    by (simp add: report_attachment_def)
  have b: "file_name report_attachment = Some (u ''docs/Q3  report_[final].pdf'')"
    by (simp add: report_attachment_def)
  have c: "b64decode example_environment (body report_attachment) = Some []"
    by (simp add: report_attachment_def example_environment_def)
  have d: "drop (Suc 0) (u ''.pdf'') = u ''pdf''"
    by (simp add: u_def)
  have a': "content_type resume_attachment = u ''attachment''"
    by (simp add: resume_attachment_def)
  have b': "file_name resume_attachment = Some resume_file_name"
    by (simp add: resume_attachment_def)
  have c': "b64decode example_environment (body resume_attachment) = Some []"
    by (simp add: resume_attachment_def example_environment_def)
  have d': "strip (collapse_ws (filter is_valid_char (path_stem resume_file_name)))
              = u ''My Rsum (v2)''"
    using resume_sanitized by (simp add: convert_to_valid_file_name_def)
  have e': "drop (Suc 0) (path_suffix resume_file_name) = u ''pdf!!''"
    by (simp add: resume_suffix u_def)
  have report: "process_content example_environment PNone None report_attachment (u ''user'') =
     Inr [PDict [(u ''document'',
                  PDict [(u ''format'', PStr (u ''pdf'')),
                         (u ''name'', PStr (u ''Q3 report[final]'')),
                         (u ''source'', PDict [(u ''bytes'', PBytes [])])])]]"
    using process_content_attachment [OF a b c, of PNone None "u ''user''"]
    by (auto simp: report_stem report_suffix report_name d)
  have resume: "process_content example_environment PNone None resume_attachment
                  (u ''assistant'') =
     Inr [PDict [(u ''document'',
                  PDict [(u ''format'', PStr (u ''txt'')),
                         (u ''name'', PStr (u ''My Rsum (v2)'')),
                         (u ''source'', PDict [(u ''bytes'', PBytes [])])])]]"
    using process_content_attachment [OF a' b' c', of PNone None "u ''assistant''"]
    by (auto simp: d' e')
  show ?thesis
    using a b c a' b' c' report resume by simp
qed






text \<open>
  C7. Every request the call returns holds a \<open>guardrailConfig\<close> entry exactly when a
  guardrail was passed whose arn and version are both non-empty; the entry carries the arn,
  the version and the trace mode \<open>enabled\<close>, and the stream processing mode \<open>async\<close> exactly
  when streaming was requested.
\<close>

theorem compose_guardrail_config:
  "\<forall>req. compose_args_for_converse_api E messages model instruction stream generation_params
            grounding_source guardrail = Inr req \<longrightarrow>
     (map_of req (u ''guardrailConfig'') \<noteq> None \<longleftrightarrow>
        (\<exists>g. guardrail = Some g \<and> guardrail_arn g \<noteq> [] \<and> guardrail_version g \<noteq> [])) \<and>
     (\<forall>config. map_of req (u ''guardrailConfig'') = Some config \<longrightarrow>
        (\<exists>d. config = PDict d \<and>
           map_of d (u ''guardrailIdentifier'') = Some (PStr (guardrail_arn (the guardrail))) \<and>
           map_of d (u ''guardrailVersion'') = Some (PStr (guardrail_version (the guardrail))) \<and>
           map_of d (u ''trace'') = Some (PStr (u ''enabled'')) \<and>
           map_of d (u ''streamProcessingMode'')
             = (if stream then Some (PStr (u ''async'')) else None)))"
proof (intro allI impI)
  fix req
  assume "compose_args_for_converse_api E messages model instruction stream generation_params
            grounding_source guardrail = Inr req"
  from compose_Inr [OF this]
  show "(map_of req (u ''guardrailConfig'') \<noteq> None \<longleftrightarrow>
        (\<exists>g. guardrail = Some g \<and> guardrail_arn g \<noteq> [] \<and> guardrail_version g \<noteq> [])) \<and>
     (\<forall>config. map_of req (u ''guardrailConfig'') = Some config \<longrightarrow>
        (\<exists>d. config = PDict d \<and>
           map_of d (u ''guardrailIdentifier'') = Some (PStr (guardrail_arn (the guardrail))) \<and>
           map_of d (u ''guardrailVersion'') = Some (PStr (guardrail_version (the guardrail))) \<and>
           map_of d (u ''trace'') = Some (PStr (u ''enabled'')) \<and>
           map_of d (u ''streamProcessingMode'')
             = (if stream then Some (PStr (u ''async'')) else None)))"
    by (auto simp: guardrail_supplied_def split: option.splits if_splits)
qed

lemma example_compose_guardrail_stream:
  "compose_args_for_converse_api example_environment [] (u ''claude-v2'') None True None
     PNone (Some example_guardrail) =
   Inr [(u ''inference_config'', PDict []),
        (u ''additional_model_request_fields'', PDict [(u ''top_k'', PInt 250)]),
        (u ''model_id'', PStr (u ''anthropic.claude-v2:1'')),
        (u ''messages'', PList []),
        (u ''stream'', PBool True),
        (u ''system'', PList []),
        (u ''guardrailConfig'',
         PDict [(u ''guardrailIdentifier'', PStr (u ''arn:aws:bedrock:guardrail/abc'')),
                (u ''guardrailVersion'', PStr (u ''1'')),
                (u ''trace'', PStr (u ''enabled'')),
                (u ''streamProcessingMode'', PStr (u ''async''))])]"
  by (simp add: compose_args_for_converse_api_def example_get_model_id guardrail_supplied_def
      dict_merge_def AList.delete_eq example_environment_def example_guardrail_def)

theorem compose_guardrail_config_witness:
  "compose_args_for_converse_api example_environment [] (u ''claude-v2'') None True None
     PNone (Some example_guardrail) =
   Inr [(u ''inference_config'', PDict []),
        (u ''additional_model_request_fields'', PDict [(u ''top_k'', PInt 250)]),
        (u ''model_id'', PStr (u ''anthropic.claude-v2:1'')),
        (u ''messages'', PList []),
        (u ''stream'', PBool True),
        (u ''system'', PList []),
        (u ''guardrailConfig'',
         PDict [(u ''guardrailIdentifier'', PStr (u ''arn:aws:bedrock:guardrail/abc'')),
                (u ''guardrailVersion'', PStr (u ''1'')),
                (u ''trace'', PStr (u ''enabled'')),
                (u ''streamProcessingMode'', PStr (u ''async''))])] \<and>
   (\<exists>g. Some example_guardrail = Some g \<and> guardrail_arn g \<noteq> [] \<and> guardrail_version g \<noteq> [])"
  using compose_guardrail_config [rule_format, OF example_compose_guardrail_stream]
    example_compose_guardrail_stream
  by simp

text \<open>
  C8. A text block of an assistant turn whose body is not a string yields one text block
  whose value is \<open>None\<close>; nothing is raised.
\<close>

theorem process_content_assistant_non_string:
  assumes "content_type c = u ''text''" and "\<forall>s. body c \<noteq> PStr s"
  shows "process_content E grounding_source guardrail c (u ''assistant'')
           = Inr [PDict [(u ''text'', PNone)]]"
  using assms by (simp add: process_content_def is_str_iff)

theorem process_content_assistant_non_string_witness:
  "content_type assistant_tool_use = u ''text'' \<and>
   (\<forall>s. body assistant_tool_use \<noteq> PStr s) \<and>
   process_content example_environment PNone (Some example_guardrail) assistant_tool_use
       (u ''assistant'') = Inr [PDict [(u ''text'', PNone)]]"
proof -
  have a: "content_type assistant_tool_use = u ''text''"
    by (simp add: assistant_tool_use_def)
  have b: "\<forall>s. body assistant_tool_use \<noteq> PStr s"
    by (simp add: assistant_tool_use_def)
  show ?thesis
    using process_content_assistant_non_string
            [OF a b, of example_environment PNone "Some example_guardrail"] a b
    by simp
qed

text \<open>
  C9. The claim as stated fails: the empty string is an instruction string, and the request
  composed with it has the empty list as \<open>system\<close>.
\<close>

theorem compose_empty_instruction_counterexample:
  "compose_args_for_converse_api example_environment [] (u ''claude-v2'') (Some []) False None
     PNone None =
   Inr [(u ''inference_config'', PDict []),
        (u ''additional_model_request_fields'', PDict [(u ''top_k'', PInt 250)]),
        (u ''model_id'', PStr (u ''anthropic.claude-v2:1'')),
        (u ''messages'', PList []),
        (u ''stream'', PBool False),
        (u ''system'', PList [])]"
  by (simp add: compose_args_for_converse_api_def example_get_model_id guardrail_supplied_def
      dict_merge_def AList.delete_eq example_environment_def)

text \<open>
  C9, amended. In every request the call returns, \<open>system\<close> is a list: the one-element list
  holding the instruction as a text entry when a non-empty instruction string was passed,
  and the empty list when the instruction is \<open>None\<close> or the empty string.
\<close>

theorem compose_system_block:
  "\<forall>req. compose_args_for_converse_api E messages model instruction stream generation_params
            grounding_source guardrail = Inr req \<longrightarrow>
     map_of req (u ''system'') =
       Some (case instruction of
               None \<Rightarrow> PList []
             | Some s \<Rightarrow> if s = [] then PList [] else PList [PDict [(u ''text'', PStr s)]])"
proof (intro allI impI)
  fix req
  assume "compose_args_for_converse_api E messages model instruction stream generation_params
            grounding_source guardrail = Inr req"
  from compose_Inr [OF this]
  show "map_of req (u ''system'') =
       Some (case instruction of
               None \<Rightarrow> PList []
             | Some s \<Rightarrow> if s = [] then PList [] else PList [PDict [(u ''text'', PStr s)]])"
    by (cases instruction) auto
qed

lemma example_compose_instruction:
  "compose_args_for_converse_api example_environment [] (u ''claude-v2'') (Some (u ''Be brief.''))
     False None PNone None =
   Inr [(u ''inference_config'', PDict []),
        (u ''additional_model_request_fields'', PDict [(u ''top_k'', PInt 250)]),
        (u ''model_id'', PStr (u ''anthropic.claude-v2:1'')),
        (u ''messages'', PList []),
        (u ''stream'', PBool False),
        (u ''system'', PList [PDict [(u ''text'', PStr (u ''Be brief.''))]])]"
  by (simp add: compose_args_for_converse_api_def example_get_model_id guardrail_supplied_def
      dict_merge_def AList.delete_eq example_environment_def)

theorem compose_system_block_witness:
  "compose_args_for_converse_api example_environment [] (u ''claude-v2'') (Some (u ''Be brief.''))
     False None PNone None =
   Inr [(u ''inference_config'', PDict []),
        (u ''additional_model_request_fields'', PDict [(u ''top_k'', PInt 250)]),
        (u ''model_id'', PStr (u ''anthropic.claude-v2:1'')),
        (u ''messages'', PList []),
        (u ''stream'', PBool False),
        (u ''system'', PList [PDict [(u ''text'', PStr (u ''Be brief.''))]])] \<and>
   (case Some (u ''Be brief.'') of
      None \<Rightarrow> PList []
    | Some s \<Rightarrow> if s = [] then PList [] else PList [PDict [(u ''text'', PStr s)]])
   = PList [PDict [(u ''text'', PStr (u ''Be brief.''))]]"
  using compose_system_block [rule_format, OF example_compose_instruction]
    example_compose_instruction
  by simp

end
